theory Spec2Isabelle
  imports Main
begin

section \<open>Data model of cluster.go\<close>

text \<open>
  A \<open>*mongoServer\<close> is a pointer; the three server sets of a cluster hold pointers to the
  same objects, and \<open>previous.Merge(server)\<close> mutates an object that \<open>servers\<close> and one
  of the role sets both point to. Pointers are therefore references into an explicit
  store of server objects.
\<close>

type_synonym ref = nat

text \<open>
  Modelled from the spec: the type \<open>mongoServer\<close> is declared outside cluster.go. The
  spec's server handle is \<open>{address, resolvedAddress, isMaster, connectionPool}\<close>; the
  source reads the fields \<open>Addr\<close>, \<open>ResolvedAddr\<close> and \<open>Master\<close>. The connection pool
  is an opaque collaborator: of it only the number of pooled connections and the number
  of \<open>Close()\<close> calls received are kept.
\<close>

record mongoServer =
  Addr :: string
  ResolvedAddr :: string
  Master :: bool
  sockets :: nat
  closes :: nat

type_synonym store = "ref \<Rightarrow> mongoServer"

text \<open>
  Modelled from the spec: the type \<open>mongoServers\<close> is declared outside cluster.go. The
  spec describes it as an ordered collection of server handles, keyed by address,
  supporting add, remove, search, indexed get, length and snapshot. It is a list of
  references; the key of a reference is the \<open>Addr\<close> of the object it points to, and
  \<open>sameAddr h r p\<close> says that \<open>p\<close> has the key of \<open>r\<close>.
\<close>

type_synonym mongoServers = "ref list"

definition sameAddr :: "store \<Rightarrow> ref \<Rightarrow> ref \<Rightarrow> bool" where
  "sameAddr h r p = (Addr (h p) = Addr (h r))"

text \<open>Modelled from the spec: \<open>Search\<close> returns the handle stored under the address of
  its argument, or nil (\<open>None\<close>).\<close>

definition Search :: "store \<Rightarrow> mongoServers \<Rightarrow> ref \<Rightarrow> ref option" where
  "Search h ss r = find (sameAddr h r) ss"

text \<open>Modelled from the spec: \<open>Add\<close> puts the handle at the end of the collection.\<close>

definition Add :: "mongoServers \<Rightarrow> ref \<Rightarrow> mongoServers" where
  "Add ss r = ss @ [r]"

text \<open>Modelled from the spec: \<open>Remove\<close> deletes what is stored under the address of its
  argument and reports whether anything was there (cluster.go uses the result as a
  \<open>bool\<close>).\<close>

definition Remove :: "store \<Rightarrow> mongoServers \<Rightarrow> ref \<Rightarrow> mongoServers \<times> bool" where
  "Remove h ss r = (filter (\<lambda>p. \<not> sameAddr h r p) ss, list_ex (sameAddr h r) ss)"

text \<open>Modelled from the spec: indexed get; an index out of range has no handle.\<close>

definition Get :: "mongoServers \<Rightarrow> nat \<Rightarrow> ref option" where
  "Get ss i = (if i < length ss then Some (ss ! i) else None)"

text \<open>Modelled from the spec: the length, the emptiness test and the snapshot of the
  collection.\<close>

definition Len :: "mongoServers \<Rightarrow> int" where
  "Len ss = int (length ss)"

definition Empty :: "mongoServers \<Rightarrow> bool" where
  "Empty ss = (ss = [])"

definition Slice :: "mongoServers \<Rightarrow> ref list" where
  "Slice ss = ss"

text \<open>Modelled from the spec: \<open>Merge\<close> is declared outside cluster.go. It brings the
  candidate's transient state (its freshly opened connections) into the existing handle;
  the role flag of a handle is written as part of the merge.\<close>

definition Merge :: "store \<Rightarrow> ref \<Rightarrow> ref \<Rightarrow> store" where
  "Merge h p r =
     h(p := (h p)\<lparr>Master := Master (h r), sockets := sockets (h p) + sockets (h r)\<rparr>)"

text \<open>Modelled from the spec: \<open>Close\<close> is declared outside cluster.go; it closes the
  connection pool of one server. The store counts the calls.\<close>

definition Close :: "store \<Rightarrow> ref \<Rightarrow> store" where
  "Close h r = h(r := (h r)\<lparr>closes := Suc (closes (h r))\<rparr>)"

text \<open>The effects of the cluster code that are not a change of its fields: calls of
  \<open>log\<close> with their arguments, broadcasts on \<open>serverSynced\<close>, and goroutines started
  with \<open>go cluster.syncServers()\<close>. Calls of \<open>debug\<close> and \<open>debugf\<close> are left out.\<close>

datatype logArg = Str string | Num int

datatype effect = Log "logArg list" | Broadcast | GoSyncServers

text \<open>
  The struct \<open>mongoCluster\<close>. The lock and the condition variable are not fields of the
  model: every function below is one critical section. \<open>heap\<close> is the memory the server
  sets point into and \<open>effects\<close> the effects so far, oldest first. \<open>references\<close> is a Go
  \<open>int\<close>; the counts stay far from its bounds and are unbounded integers here.
\<close>

record mongoCluster =
  userSeeds :: "string list"
  dynaSeeds :: "string list"
  servers :: mongoServers
  masters :: mongoServers
  slaves :: mongoServers
  syncing :: bool
  references :: int
  heap :: store
  effects :: "effect list"

datatype error = Panic string | ErrorString string

definition emit :: "effect \<Rightarrow> mongoCluster \<Rightarrow> mongoCluster" where
  "emit e c = c\<lparr>effects := effects c @ [e]\<rparr>"

text \<open>\<open>newCluster\<close>: the fields not named are Go zero values; the store is the memory the
  program runs in.\<close>

definition newCluster :: "string list \<Rightarrow> store \<Rightarrow> mongoCluster" where
  "newCluster seeds h =
     \<lparr>userSeeds = seeds, dynaSeeds = [], servers = [], masters = [], slaves = [],
      syncing = False, references = 1, heap = h, effects = [GoSyncServers]\<rparr>"

definition Acquire :: "mongoCluster \<Rightarrow> mongoCluster" where
  "Acquire c = c\<lparr>references := references c + 1\<rparr>"

definition Release :: "mongoCluster \<Rightarrow> error + mongoCluster" where
  "Release c =
     (if references c = 0 then Inl (Panic ''cluster.Release() with references == 0'')
      else
        let c1 = c\<lparr>references := references c - 1\<rparr> in
        if references c1 = 0
        then Inr (c1\<lparr>heap := fold (\<lambda>server h. Close h server) (Slice (servers c1)) (heap c1)\<rparr>)
        else Inr c1)"

text \<open>\<open>removeServer\<close>: Go's \<open>||\<close> evaluates its right operand only when the left one is
  false, so a later \<open>Remove\<close> runs only when the earlier ones found nothing.\<close>

definition removeServer :: "ref \<Rightarrow> mongoCluster \<Rightarrow> mongoCluster" where
  "removeServer server c =
     (let (ss, r1) = Remove (heap c) (servers c) server;
          c1 = c\<lparr>servers := ss\<rparr>;
          (c2, removed) =
            (if r1 then (c1, True)
             else
               let (ms, r2) = Remove (heap c1) (masters c1) server;
                   c2 = c1\<lparr>masters := ms\<rparr>
               in if r2 then (c2, True)
                  else
                    let (sl, r3) = Remove (heap c2) (slaves c2) server
                    in (c2\<lparr>slaves := sl\<rparr>, r3))
      in if removed
         then emit (Log [Str ''Removing server '', Str (Addr (heap c server)), Str '' from cluster.'']) c2
         else c2)"

definition mergeServer :: "ref \<Rightarrow> mongoCluster \<Rightarrow> mongoCluster" where
  "mergeServer server c =
     (let h = heap c;
          c1 =
            (case Search h (servers c) server of
               None \<Rightarrow>
                 let c1 = c\<lparr>servers := Add (servers c) server\<rparr> in
                 if Master (h server)
                 then (emit (Log [Str ''[sync] Adding '', Str (Addr (h server)), Str '' to cluster as a master.'']) c1)
                        \<lparr>masters := Add (masters c1) server\<rparr>
                 else (emit (Log [Str ''[sync] Adding '', Str (Addr (h server)), Str '' to cluster as a slave.'']) c1)
                        \<lparr>slaves := Add (slaves c1) server\<rparr>
             | Some previous \<Rightarrow>
                 let c1 =
                   (if Master (h server) \<noteq> Master (h previous)
                    then
                      if Master (h previous)
                      then
                        let c2 = emit (Log [Str ''[sync] Server '', Str (Addr (h server)), Str '' is now a slave.'']) c;
                            c3 = c2\<lparr>masters := fst (Remove h (masters c2) previous)\<rparr>
                        in c3\<lparr>slaves := Add (slaves c3) previous\<rparr>
                      else
                        let c2 = emit (Log [Str ''[sync] Server '', Str (Addr (h server)), Str '' is now a master.'']) c;
                            c3 = c2\<lparr>slaves := fst (Remove h (slaves c2) previous)\<rparr>
                        in c3\<lparr>masters := Add (masters c3) previous\<rparr>
                    else c)
                 in c1\<lparr>heap := Merge h previous server\<rparr>)
      in emit Broadcast c1)"


text \<open>\<open>getKnownAddrs\<close>: the closure \<open>add\<close> works on the map \<open>seen\<close> and the slice
  \<open>known\<close>.\<close>

fun add :: "string \<Rightarrow> (string \<rightharpoonup> bool) \<times> string list \<Rightarrow> (string \<rightharpoonup> bool) \<times> string list" where
  "add addr (seen, known) =
     (case seen addr of
        None \<Rightarrow> (seen(addr \<mapsto> True), known @ [addr])
      | Some _ \<Rightarrow> (seen, known))"

definition getKnownAddrs :: "mongoCluster \<Rightarrow> string list" where
  "getKnownAddrs c =
     snd (fold (\<lambda>serv. add (Addr (heap c serv))) (Slice (servers c))
            (fold add (dynaSeeds c)
               (fold add (userSeeds c) (Map.empty, []))))"

section \<open>syncServers\<close>

text \<open>
  \<open>syncServers\<close> is taken in its three phases: the guard under the cluster lock (lines
  241 to 248), the lock free fan-out (lines 254 to 301) and the critical section that
  ends the pass (lines 303 to 331). \<open>syncGuard\<close> is \<open>None\<close> where the function returns at
  once.
\<close>

definition syncGuard :: "mongoCluster \<Rightarrow> mongoCluster option" where
  "syncGuard c =
     (if syncing c \<or> references c = 0 then None
      else Some (c\<lparr>references := references c + 1, syncing := True\<rparr>))"

text \<open>
  The fan-out has the local variables \<open>started\<close> and \<open>finished\<close>, guarded by the mutex
  \<open>m\<close>, and the mutex \<open>done\<close> the coordinator blocks on. \<open>todo\<close> is what the loop of line
  297 has still to go through, \<open>running\<close> lists the addresses of the goroutines whose
  deferred function has not run yet, \<open>doneLocked\<close> is the state of the mutex \<open>done\<close>,
  \<open>signals\<close> counts the calls of \<open>done.Unlock()\<close> that opened it, and \<open>resumed\<close> says
  that the \<open>done.Lock()\<close> of line 301 has returned.
\<close>

record pass =
  known :: "string list"
  todo :: "string list"
  started :: int
  finished :: int
  running :: "string list"
  doneLocked :: bool
  signals :: nat
  resumed :: bool

definition startPass :: "string list \<Rightarrow> pass" where
  "startPass ks =
     \<lparr>known = ks, todo = ks, started = 0, finished = 0, running = [],
      doneLocked = True, signals = 0, resumed = False\<rparr>"

text \<open>\<open>spawnSync\<close> up to the \<open>go\<close> statement: count the branch and start its goroutine.\<close>

definition spawnSync :: "string \<Rightarrow> pass \<Rightarrow> pass" where
  "spawnSync addr p = p\<lparr>started := started p + 1, running := running p @ [addr]\<rparr>"

text \<open>The deferred function of the goroutine at position \<open>i\<close> of \<open>running\<close>. To unlock
  a mutex that is not locked is a run-time error of Go, which ends the program.\<close>

definition deferred :: "nat \<Rightarrow> pass \<Rightarrow> error + pass" where
  "deferred i p =
     (let p1 = p\<lparr>finished := finished p + 1, running := take i (running p) @ drop (Suc i) (running p)\<rparr>
      in if started p1 = finished p1 \<and> finished p1 \<ge> int (length (known p1))
         then (if doneLocked p1
               then Inr (p1\<lparr>doneLocked := False, signals := Suc (signals p1)\<rparr>)
               else Inl (Panic ''sync: unlock of unlocked mutex''))
         else Inr p1)"

text \<open>
  The atomic actions of a pass, in any interleaving: the loop of line 297 spawns the
  next known address; a running goroutine spawns a branch for a host its server
  reported (line 291); a running goroutine returns and its deferred function runs; the
  coordinator gets the \<open>done\<close> mutex at line 301. An action that cannot happen in a state
  gives \<open>None\<close>; after a run-time error nothing happens any more.
\<close>

datatype action = LoopSpawn | HostSpawn nat string | Return nat | DoneLock

fun step :: "action \<Rightarrow> pass \<Rightarrow> (error + pass) option" where
  "step LoopSpawn p =
     (case todo p of
        [] \<Rightarrow> None
      | addr # rest \<Rightarrow> Some (Inr (spawnSync addr (p\<lparr>todo := rest\<rparr>))))"
| "step (HostSpawn i addr) p =
     (if i < length (running p) then Some (Inr (spawnSync addr p)) else None)"
| "step (Return i) p = (if i < length (running p) then Some (deferred i p) else None)"
| "step DoneLock p =
     (if todo p = [] \<and> \<not> doneLocked p \<and> \<not> resumed p
      then Some (Inr (p\<lparr>doneLocked := True, resumed := True\<rparr>)) else None)"

fun run :: "action list \<Rightarrow> pass \<Rightarrow> (error + pass) option" where
  "run [] p = Some (Inr p)"
| "run (a # as) p =
     (case step a p of
        None \<Rightarrow> None
      | Some (Inl e) \<Rightarrow> (if as = [] then Some (Inl e) else None)
      | Some (Inr p') \<Rightarrow> run as p')"

text \<open>The critical section after the fan-out (lines 303 to 331), up to the unlock. The
  result says whether the function goes back to \<open>restart\<close>; the \<open>Release\<close> that follows
  the unlock is \<open>syncEnd\<close>.\<close>

definition syncCompleted :: "mongoCluster \<Rightarrow> bool \<times> mongoCluster" where
  "syncCompleted c =
     (let c1 = c\<lparr>syncing := False\<rparr>;
          c2 = emit (Log [Str ''[sync] Synchronization completed: '', Num (Len (masters c1)),
                          Str '' master(s) and, '', Num (Len (slaves c1)), Str '' slave(s) alive.'']) c1;
          c3 = (if \<not> Empty (servers c2)
                then c2\<lparr>dynaSeeds := map (\<lambda>server. Addr (heap c2 server)) (Slice (servers c2))\<rparr>
                else c2)
      in if Len (masters c3) = 0
         then (True, emit Broadcast (emit (Log [Str ''[sync] No masters found. Synchronize again.'']) c3))
         else (False, c3))"

definition syncEnd :: "mongoCluster \<Rightarrow> error + (bool \<times> mongoCluster)" where
  "syncEnd c =
     (let (again, c1) = syncCompleted c
      in case Release c1 of Inl e \<Rightarrow> Inl e | Inr c2 \<Rightarrow> Inr (again, c2))"

section \<open>AcquireSocket\<close>

text \<open>
  Modelled from the spec: \<open>mongoSocket\<close> is declared outside cluster.go; a socket is a
  connection of one server.
\<close>

datatype mongoSocket = MongoSocket ref nat

text \<open>
  \<open>AcquireSocket\<close> blocks, reads the clock and opens connections. What the rest of the
  program and the network do is a script of events, read in order:
  \<open>Clock t\<close> is the value of a call of \<open>time.Nanoseconds()\<close>;
  \<open>Wake f\<close> is the return of \<open>serverSynced.Wait()\<close>, the other goroutines having changed
  the cluster by \<open>f\<close> in between;
  \<open>Open res f\<close> is the result of \<open>server.AcquireSocket()\<close> on the selected server (an
  error, or the number of the connection), the other goroutines having changed the
  cluster by \<open>f\<close> while no lock was held.
  Where the script has no event for a call, the call has not returned: the result is
  \<open>None\<close>.
\<close>

datatype event =
    Clock int
  | Wake "mongoCluster \<Rightarrow> mongoCluster"
  | Open "error + nat" "mongoCluster \<Rightarrow> mongoCluster"

text \<open>The test that ends the inner loop (line 344) and the selection (lines 355 to 360).\<close>

definition eligible :: "bool \<Rightarrow> mongoCluster \<Rightarrow> bool" where
  "eligible write c = (\<not> Empty (masters c) \<or> \<not> write \<and> \<not> Empty (slaves c))"

definition selectServer :: "bool \<Rightarrow> mongoCluster \<Rightarrow> ref option" where
  "selectServer write c =
     (if write \<or> Empty (slaves c) then Get (masters c) 0 else Get (slaves c) 0)"

text \<open>
  The two nested loops from the point of the test of line 344; \<open>started0\<close> is the local
  variable \<open>started\<close>. Go's \<open>&&\<close> reads the clock only when \<open>syncTimeout > 0\<close>. Where
  \<open>Get(0)\<close> has no handle to give, the call on it is a run-time panic.
\<close>

fun acquireLoop ::
  "bool \<Rightarrow> int \<Rightarrow> int \<Rightarrow> event list \<Rightarrow> mongoCluster \<Rightarrow> ((error + mongoSocket) \<times> mongoCluster) option" where
  "acquireLoop write syncTimeout started0 es c =
     (if eligible write c then
        (case selectServer write c of
           None \<Rightarrow> Some (Inl (Panic ''runtime error''), c)
         | Some server \<Rightarrow>
             (case es of
                Open (Inr n) f # es' \<Rightarrow> Some (Inr (MongoSocket server n), f c)
              | Open (Inl err) f # es' \<Rightarrow>
                  acquireLoop write syncTimeout started0 es'
                    (emit GoSyncServers (removeServer server (f c)))
              | _ \<Rightarrow> None))
      else if syncTimeout > 0 then
        (case es of
           Clock now # es' \<Rightarrow>
             if now - started0 > syncTimeout
             then Some (Inl (ErrorString ''no reachable servers''), c)
             else
               (case es' of
                  Wake f # es'' \<Rightarrow>
                    acquireLoop write syncTimeout started0 es''
                      (f (emit (Log [Str ''Waiting for masters to synchronize.'']) c))
                | _ \<Rightarrow> None)
         | _ \<Rightarrow> None)
      else
        (case es of
           Wake f # es' \<Rightarrow>
             acquireLoop write syncTimeout started0 es'
               (f (emit (Log [Str ''Waiting for masters to synchronize.'']) c))
         | _ \<Rightarrow> None))"

declare acquireLoop.simps [simp del]

definition AcquireSocket ::
  "bool \<Rightarrow> int \<Rightarrow> event list \<Rightarrow> mongoCluster \<Rightarrow> ((error + mongoSocket) \<times> mongoCluster) option" where
  "AcquireSocket write syncTimeout es c =
     (case es of
        Clock t0 # es' \<Rightarrow> acquireLoop write syncTimeout t0 es' c
      | _ \<Rightarrow> None)"

section \<open>Properties of a cluster state\<close>

text \<open>The partition of the spec: masters and slaves are disjoint and make up servers.\<close>

definition partitioned :: "mongoCluster \<Rightarrow> bool" where
  "partitioned c =
     (set (masters c) \<inter> set (slaves c) = {} \<and> set (masters c) \<union> set (slaves c) = set (servers c))"

text \<open>The state of the spec's data model: the partition, one handle for an address, and
  role flags that agree with the role sets.\<close>

definition wellFormed :: "mongoCluster \<Rightarrow> bool" where
  "wellFormed c =
     (partitioned c \<and> distinct (map (\<lambda>p. Addr (heap c p)) (servers c)) \<and>
      list_all (\<lambda>p. Master (heap c p)) (masters c) \<and>
      list_all (\<lambda>p. \<not> Master (heap c p)) (slaves c))"

text \<open>Whether one of the three sets holds something under the address of a handle.\<close>

definition known_to :: "mongoCluster \<Rightarrow> ref \<Rightarrow> bool" where
  "known_to c r = list_ex (sameAddr (heap c) r) (servers c @ masters c @ slaves c)"

section \<open>A store for examples\<close>

definition srv :: "string \<Rightarrow> bool \<Rightarrow> mongoServer" where
  "srv a m = \<lparr>Addr = a, ResolvedAddr = a, Master = m, sockets = 0, closes = 0\<rparr>"

text \<open>Objects 0 and 2 are two handles of the address A, a master and a slave; object 3
  is a slave at B; every other object is a master at C.\<close>

definition exStore :: store where
  "exStore r =
     (if r = 0 then srv ''A'' True else if r = 2 then srv ''A'' False
      else if r = 3 then srv ''B'' False else srv ''C'' True)"

text \<open>The cluster with the seed A after merging object 0 (\<open>exM\<close>); after removing it
  again (\<open>exMR\<close>); after merging object 2 on top of that (\<open>exMRS\<close>); after merging
  object 2 into the fresh cluster (\<open>exS\<close>), removing it again (\<open>exSR\<close>) and merging
  object 0 on top of that (\<open>exSRM\<close>); and after merging object 0 and then object 2
  (\<open>exF\<close>).\<close>

definition exM :: mongoCluster where
  "exM =
     \<lparr>userSeeds = [''A''], dynaSeeds = [], servers = [0], masters = [0], slaves = [],
      syncing = False, references = 1, heap = exStore,
      effects = [GoSyncServers,
                 Log [Str ''[sync] Adding '', Str ''A'', Str '' to cluster as a master.''],
                 Broadcast]\<rparr>"

definition exMR :: mongoCluster where
  "exMR = exM\<lparr>servers := [],
     effects := effects exM @ [Log [Str ''Removing server '', Str ''A'', Str '' from cluster.'']]\<rparr>"

definition exMRS :: mongoCluster where
  "exMRS = exMR\<lparr>servers := [2], slaves := [2],
     effects := effects exMR @
       [Log [Str ''[sync] Adding '', Str ''A'', Str '' to cluster as a slave.''], Broadcast]\<rparr>"

definition exS :: mongoCluster where
  "exS =
     \<lparr>userSeeds = [''A''], dynaSeeds = [], servers = [2], masters = [], slaves = [2],
      syncing = False, references = 1, heap = exStore,
      effects = [GoSyncServers,
                 Log [Str ''[sync] Adding '', Str ''A'', Str '' to cluster as a slave.''],
                 Broadcast]\<rparr>"

definition exSR :: mongoCluster where
  "exSR = exS\<lparr>servers := [],
     effects := effects exS @ [Log [Str ''Removing server '', Str ''A'', Str '' from cluster.'']]\<rparr>"

definition exSRM :: mongoCluster where
  "exSRM = exSR\<lparr>servers := [0], masters := [0],
     effects := effects exSR @
       [Log [Str ''[sync] Adding '', Str ''A'', Str '' to cluster as a master.''], Broadcast]\<rparr>"

definition exF :: mongoCluster where
  "exF = exM\<lparr>masters := [], slaves := [0], heap := exStore(0 := srv ''A'' False),
     effects := effects exM @
       [Log [Str ''[sync] Server '', Str ''A'', Str '' is now a slave.''], Broadcast]\<rparr>"


section \<open>The server sets\<close>

lemma Search_Some: "Search h ss r = Some p \<Longrightarrow> p \<in> set ss \<and> Addr (h p) = Addr (h r)"
  by (auto simp: Search_def sameAddr_def find_Some_iff)

lemma Search_None: "Search h ss r = None \<longleftrightarrow> (\<forall>p\<in>set ss. Addr (h p) \<noteq> Addr (h r))"
  by (auto simp: Search_def sameAddr_def find_None_iff)

lemma Search_cong_addr:
  assumes "\<And>q. Addr (h' q) = Addr (h q)" "Addr (h' r') = Addr (h r)"
  shows "Search h' ss r' = Search h ss r"
proof -
  have "sameAddr h' r' = sameAddr h r"
    using assms by (simp add: sameAddr_def fun_eq_iff)
  then show ?thesis by (simp add: Search_def)
qed

lemma find_app:
  "find P (xs @ ys) = (case find P xs of None \<Rightarrow> find P ys | Some x \<Rightarrow> Some x)"
  by (induction xs) auto

lemma Search_append_new:
  assumes "Search h ss r = None" "Addr (h r') = Addr (h r)"
  shows "Search h (ss @ [r]) r' = Some r"
proof -
  have "Search h (ss @ [r]) r' = Search h (ss @ [r]) r"
    by (rule Search_cong_addr) (simp_all add: assms)
  also have "\<dots> = Some r"
    using assms(1) by (simp add: Search_def find_app sameAddr_def)
  finally show ?thesis .
qed

lemma filter_other_addr:
  assumes inj: "inj_on (\<lambda>p. Addr (h p)) S" and sub: "set xs \<subseteq> S" and p: "p \<in> S"
  shows "set (filter (\<lambda>q. \<not> sameAddr h p q) xs) = set xs - {p}"
  using assms by (auto simp: sameAddr_def inj_on_def)

lemma Merge_Addr: "Addr (Merge h p r q) = Addr (h q)"
  by (simp add: Merge_def)

lemma fold_Close_closes:
  "closes (fold (\<lambda>server h. Close h server) xs h r) = closes (h r) + count_list xs r"
  by (induction xs arbitrary: h) (auto simp: Close_def)

section \<open>The example states\<close>

lemma exStore_simps:
  "exStore 0 = srv ''A'' True" "exStore 2 = srv ''A'' False" "exStore 3 = srv ''B'' False"
  by (simp_all add: exStore_def)

lemma ex_master: "mergeServer 0 (newCluster [''A''] exStore) = exM"
  by (simp add: mergeServer_def newCluster_def Search_def Add_def emit_def exStore_simps srv_def
      exM_def)

lemma ex_slave: "mergeServer 2 (newCluster [''A''] exStore) = exS"
  by (simp add: mergeServer_def newCluster_def Search_def Add_def emit_def exStore_simps srv_def
      exS_def)

lemma ex_master_removed: "removeServer 0 exM = exMR"
  by (simp add: exMR_def exM_def removeServer_def Remove_def sameAddr_def emit_def
      exStore_simps srv_def)

lemma ex_slave_removed: "removeServer 2 exS = exSR"
  by (simp add: exSR_def exS_def removeServer_def Remove_def sameAddr_def emit_def
      exStore_simps srv_def)

lemma ex_fresh_removed:
  "removeServer 0 (newCluster [''A''] exStore) = newCluster [''A''] exStore"
  by (simp add: newCluster_def removeServer_def Remove_def)

lemma ex_remerged: "mergeServer 2 exMR = exMRS"
  by (simp add: exMRS_def exMR_def exM_def mergeServer_def Search_def Add_def emit_def
      exStore_simps srv_def)

lemma ex_slave_remerged: "mergeServer 0 exSR = exSRM"
  by (simp add: exSRM_def exSR_def exS_def mergeServer_def Search_def Add_def emit_def
      exStore_simps srv_def)

lemma ex_flipped: "mergeServer 2 exM = exF"
  by (simp add: exF_def exM_def mergeServer_def Search_def Add_def Remove_def Merge_def
      sameAddr_def emit_def exStore_simps srv_def)

lemma exM_fields:
  "servers exM = [0]" "masters exM = [0]" "slaves exM = []" "heap exM = exStore"
  "references exM = 1"
  "effects exM = [GoSyncServers,
     Log [Str ''[sync] Adding '', Str ''A'', Str '' to cluster as a master.''], Broadcast]"
  by (simp_all add: exM_def)

lemma exMR_fields:
  "servers exMR = []" "masters exMR = [0]" "slaves exMR = []" "heap exMR = exStore"
  "effects exMR = effects exM @ [Log [Str ''Removing server '', Str ''A'', Str '' from cluster.'']]"
  by (simp_all add: exMR_def exM_def)

lemma exMRS_fields:
  "servers exMRS = [2]" "masters exMRS = [0]" "slaves exMRS = [2]" "heap exMRS = exStore"
  by (simp_all add: exMRS_def exMR_def exM_def)

lemma exS_fields:
  "servers exS = [2]" "masters exS = []" "slaves exS = [2]" "heap exS = exStore"
  by (simp_all add: exS_def)

lemma exSR_fields:
  "servers exSR = []" "masters exSR = []" "slaves exSR = [2]" "heap exSR = exStore"
  by (simp_all add: exSR_def exS_def)

lemma exSRM_fields:
  "servers exSRM = [0]" "masters exSRM = [0]" "slaves exSRM = [2]" "heap exSRM = exStore"
  by (simp_all add: exSRM_def exSR_def exS_def)

lemma exF_fields:
  "servers exF = [0]" "masters exF = []" "slaves exF = [0]"
  "heap exF = exStore(0 := srv ''A'' False)"
  by (simp_all add: exF_def exM_def)

lemmas ex_fields = exM_fields exMR_fields exMRS_fields exSRM_fields exS_fields exSR_fields exF_fields

lemmas ex_steps =
  ex_master ex_slave ex_master_removed ex_slave_removed ex_fresh_removed ex_remerged
  ex_slave_remerged ex_flipped

section \<open>removeServer\<close>

lemma removeServer_heap: "heap (removeServer r c) = heap c"
  by (simp add: removeServer_def Remove_def emit_def Let_def split: prod.splits if_splits)

lemma removeServer_servers:
  "servers (removeServer r c) = filter (\<lambda>p. \<not> sameAddr (heap c) r p) (servers c)"
  by (simp add: removeServer_def Remove_def emit_def Let_def split: prod.splits if_splits)

lemma removeServer_unregistered:
  assumes "\<not> list_ex (sameAddr (heap c) r) (servers c)"
  shows "list_ex (sameAddr (heap c) r) (masters c) \<Longrightarrow>
           masters (removeServer r c) = filter (\<lambda>p. \<not> sameAddr (heap c) r p) (masters c) \<and>
           slaves (removeServer r c) = slaves c"
    and "\<not> list_ex (sameAddr (heap c) r) (masters c) \<Longrightarrow>
           masters (removeServer r c) = masters c \<and>
           slaves (removeServer r c) = filter (\<lambda>p. \<not> sameAddr (heap c) r p) (slaves c)"
  using assms
  by (auto simp add: removeServer_def Remove_def emit_def Let_def list_ex_iff filter_id_conv
      split: prod.splits if_splits)

lemma removeServer_absent: "\<not> known_to c r \<Longrightarrow> removeServer r c = c"
  by (auto simp add: known_to_def removeServer_def Remove_def emit_def Let_def list_ex_iff
      filter_id_conv split: prod.splits if_splits)

lemma removeServer_effects:
  "effects (removeServer r c) =
     (if known_to c r
      then effects c @ [Log [Str ''Removing server '', Str (Addr (heap c r)), Str '' from cluster.'']]
      else effects c)"
  by (auto simp add: known_to_def removeServer_def Remove_def emit_def Let_def list_ex_iff
      split: prod.splits if_splits)

text \<open>
  C1, where the code departs from the claim. The claim: in every state reached from a
  fresh cluster by mergeServer, removeServer, Release and the end of a pass, masters and
  slaves are disjoint and together make up servers. A fresh cluster merges handle 0
  (address A, master) and then removes it: the first \<open>Remove\<close> of removeServer succeeds,
  the two others are not evaluated, and the handle stays in masters while servers is
  empty. Merging handle 2 (address A, slave) then puts A into slaves as well.
\<close>

theorem removeServer_breaks_partition:
  "servers (removeServer 0 (mergeServer 0 (newCluster [''A''] exStore))) = [] \<and>
   masters (removeServer 0 (mergeServer 0 (newCluster [''A''] exStore))) = [0] \<and>
   \<not> partitioned (removeServer 0 (mergeServer 0 (newCluster [''A''] exStore))) \<and>
   masters (mergeServer 2 (removeServer 0 (mergeServer 0 (newCluster [''A''] exStore)))) = [0] \<and>
   slaves (mergeServer 2 (removeServer 0 (mergeServer 0 (newCluster [''A''] exStore)))) = [2] \<and>
   Addr (exStore 0) = Addr (exStore 2)"
  by (simp add: ex_steps ex_fields partitioned_def exStore_simps srv_def)

text \<open>
  C2 as the claim has it fails twice. On the state in which handle 0 is in servers and in
  masters, removeServer leaves it in masters; and on a fresh cluster, which holds the
  handle in none of its sets, removeServer writes no log line.
\<close>

theorem removeServer_all_three_counterexample:
  "0 \<in> set (masters (removeServer 0 (mergeServer 0 (newCluster [''A''] exStore)))) \<and>
   effects (removeServer 0 (newCluster [''A''] exStore)) = effects (newCluster [''A''] exStore)"
  by (simp add: ex_steps ex_fields)

text \<open>
  C2, amended: after removeServer nothing is stored in servers under the address of the
  handle; the log line is written exactly when one of the three sets held that address;
  when none did, the cluster is left as it was and nothing is logged.
\<close>

theorem removeServer_servers_and_log:
  "list_all (\<lambda>p. Addr (heap c p) \<noteq> Addr (heap c server)) (servers (removeServer server c)) \<and>
   server \<notin> set (servers (removeServer server c)) \<and>
   (known_to c server \<longrightarrow>
      effects (removeServer server c) =
        effects c @ [Log [Str ''Removing server '', Str (Addr (heap c server)), Str '' from cluster.'']]) \<and>
   (\<not> known_to c server \<longrightarrow> removeServer server c = c)"
  by (simp add: removeServer_servers removeServer_effects removeServer_absent list_all_iff
      sameAddr_def)

lemma ex_known: "known_to exM 0" "\<not> known_to (newCluster [''A''] exStore) 0"
  by (simp_all add: known_to_def sameAddr_def newCluster_def exM_def)

theorem removeServer_servers_and_log_witness:
  "known_to (mergeServer 0 (newCluster [''A''] exStore)) 0 \<and>
   servers (removeServer 0 (mergeServer 0 (newCluster [''A''] exStore))) = [] \<and>
   effects (removeServer 0 (mergeServer 0 (newCluster [''A''] exStore))) =
     effects (mergeServer 0 (newCluster [''A''] exStore)) @
       [Log [Str ''Removing server '', Str ''A'', Str '' from cluster.'']] \<and>
   \<not> known_to (newCluster [''A''] exStore) 0 \<and>
   removeServer 0 (newCluster [''A''] exStore) = newCluster [''A''] exStore"
  using removeServer_servers_and_log [of "mergeServer 0 (newCluster [''A''] exStore)" 0]
    removeServer_servers_and_log [of "newCluster [''A''] exStore" 0]
  by (simp add: ex_steps ex_fields ex_known exStore_simps srv_def)

section \<open>mergeServer\<close>

lemma mergeServer_Addr: "Addr (heap (mergeServer r c) q) = Addr (heap c q)"
  by (simp add: mergeServer_def emit_def Let_def Merge_def split: option.splits)

lemma mergeServer_absent:
  assumes "Search (heap c) (servers c) r = None"
  shows "servers (mergeServer r c) = servers c @ [r]"
    and "heap (mergeServer r c) = heap c"
    and "masters (mergeServer r c) = (if Master (heap c r) then masters c @ [r] else masters c)"
    and "slaves (mergeServer r c) = (if Master (heap c r) then slaves c else slaves c @ [r])"
  using assms by (simp_all add: mergeServer_def emit_def Let_def Add_def)

lemma mergeServer_present:
  assumes "Search (heap c) (servers c) r = Some p"
  shows "servers (mergeServer r c) = servers c"
    and "heap (mergeServer r c) = Merge (heap c) p r"
    and "masters (mergeServer r c) =
          (if Master (heap c r) = Master (heap c p) then masters c
           else if Master (heap c p) then filter (\<lambda>q. \<not> sameAddr (heap c) p q) (masters c)
           else masters c @ [p])"
    and "slaves (mergeServer r c) =
          (if Master (heap c r) = Master (heap c p) then slaves c
           else if Master (heap c p) then slaves c @ [p]
           else filter (\<lambda>q. \<not> sameAddr (heap c) p q) (slaves c))"
  using assms by (simp_all add: mergeServer_def emit_def Let_def Add_def Remove_def)

lemma mergeServer_same_role:
  assumes "Search (heap c) (servers c) r = Some p" "Master (heap c r) = Master (heap c p)"
  shows "effects (mergeServer r c) = effects c @ [Broadcast]"
  using assms by (simp add: mergeServer_def emit_def Let_def)

text \<open>
  C4: a second mergeServer with a handle of the same address and the same role as the
  first leaves servers, masters and slaves as the first call left them, and moves
  nothing: it writes no log line, only the broadcast.
\<close>

theorem mergeServer_idempotent:
  assumes a: "Addr (heap (mergeServer r c) r') = Addr (heap c r)"
      and m: "Master (heap (mergeServer r c) r') = Master (heap c r)"
  shows "servers (mergeServer r' (mergeServer r c)) = servers (mergeServer r c) \<and>
         masters (mergeServer r' (mergeServer r c)) = masters (mergeServer r c) \<and>
         slaves (mergeServer r' (mergeServer r c)) = slaves (mergeServer r c) \<and>
         effects (mergeServer r' (mergeServer r c)) = effects (mergeServer r c) @ [Broadcast]"
proof (cases "Search (heap c) (servers c) r")
  case None
  let ?c1 = "mergeServer r c"
  have h1: "heap ?c1 = heap c" using None by (rule mergeServer_absent)
  have a': "Addr (heap c r') = Addr (heap c r)" using a h1 by simp
  have s1: "Search (heap ?c1) (servers ?c1) r' = Some r"
    using None a' by (simp add: h1 mergeServer_absent(1) Search_append_new)
  have "Master (heap ?c1 r') = Master (heap ?c1 r)" using m h1 by simp
  then show ?thesis using s1
    by (simp add: mergeServer_present [OF s1] mergeServer_same_role [OF s1])
next
  case (Some p)
  let ?c1 = "mergeServer r c"
  have h1: "heap ?c1 = Merge (heap c) p r" using Some by (rule mergeServer_present)
  have "Search (heap ?c1) (servers ?c1) r' = Search (heap c) (servers c) r"
    unfolding mergeServer_present(1) [OF Some]
  proof (rule Search_cong_addr)
    show "Addr (heap ?c1 q) = Addr (heap c q)" for q by (rule mergeServer_Addr)
    show "Addr (heap ?c1 r') = Addr (heap c r)" by (rule a)
  qed
  then have s1: "Search (heap ?c1) (servers ?c1) r' = Some p" using Some by simp
  have "Master (heap ?c1 p) = Master (heap c r)" by (simp add: h1 Merge_def)
  then have "Master (heap ?c1 r') = Master (heap ?c1 p)" using m by simp
  then show ?thesis using s1
    by (simp add: mergeServer_present [OF s1] mergeServer_same_role [OF s1])
qed

theorem mergeServer_idempotent_witness:
  "Addr (heap (mergeServer 2 (mergeServer 0 (newCluster [''A''] exStore))) 2) =
     Addr (heap (mergeServer 0 (newCluster [''A''] exStore)) 2) \<and>
   Master (heap (mergeServer 2 (mergeServer 0 (newCluster [''A''] exStore))) 2) =
     Master (heap (mergeServer 0 (newCluster [''A''] exStore)) 2) \<and>
   servers (mergeServer 2 (mergeServer 2 (mergeServer 0 (newCluster [''A''] exStore)))) = [0] \<and>
   masters (mergeServer 2 (mergeServer 2 (mergeServer 0 (newCluster [''A''] exStore)))) = [] \<and>
   slaves (mergeServer 2 (mergeServer 2 (mergeServer 0 (newCluster [''A''] exStore)))) = [0]"
  using mergeServer_idempotent [of 2 "mergeServer 0 (newCluster [''A''] exStore)" 2]
  by (simp add: ex_steps ex_fields exStore_simps srv_def)


text \<open>mergeServer keeps a well-formed cluster well-formed.\<close>

lemma mergeServer_wellFormed:
  assumes wf: "wellFormed c"
  shows "wellFormed (mergeServer r c)"
proof (cases "Search (heap c) (servers c) r")
  case None
  then have fresh: "\<forall>p\<in>set (servers c). Addr (heap c p) \<noteq> Addr (heap c r)"
    by (simp add: Search_None)
  then have "r \<notin> set (servers c)" by auto
  with wf fresh show ?thesis
    by (auto simp: wellFormed_def partitioned_def mergeServer_absent [OF None] list_all_iff)
next
  case (Some p)
  from Search_Some [OF Some] have ps: "p \<in> set (servers c)" by simp
  from wf have inj: "inj_on (\<lambda>p. Addr (heap c p)) (set (servers c))"
    by (simp add: wellFormed_def distinct_map)
  from wf have subs: "set (masters c) \<subseteq> set (servers c)" "set (slaves c) \<subseteq> set (servers c)"
    by (auto simp: wellFormed_def partitioned_def)
  have fm: "set (filter (\<lambda>q. \<not> sameAddr (heap c) p q) (masters c)) = set (masters c) - {p}"
    by (rule filter_other_addr [OF inj subs(1) ps])
  have fs: "set (filter (\<lambda>q. \<not> sameAddr (heap c) p q) (slaves c)) = set (slaves c) - {p}"
    by (rule filter_other_addr [OF inj subs(2) ps])
  have addr: "(\<lambda>q. Addr (Merge (heap c) p r q)) = (\<lambda>q. Addr (heap c q))"
    by (simp add: Merge_Addr)
  have part: "partitioned (mergeServer r c)"
    using wf ps unfolding partitioned_def wellFormed_def
    by (auto simp: mergeServer_present [OF Some] fm fs list_all_iff simp del: set_filter)
  have dist: "distinct (map (\<lambda>q. Addr (heap (mergeServer r c) q)) (servers (mergeServer r c)))"
    using wf by (simp add: mergeServer_present [OF Some] addr wellFormed_def)
  have roles: "list_all (\<lambda>q. Master (heap (mergeServer r c) q)) (masters (mergeServer r c)) \<and>
               list_all (\<lambda>q. \<not> Master (heap (mergeServer r c) q)) (slaves (mergeServer r c))"
    using wf ps unfolding partitioned_def wellFormed_def list_all_iff
    by (auto simp: mergeServer_present [OF Some] fm fs Merge_def simp del: set_filter)
  from part dist roles show ?thesis by (simp add: wellFormed_def)
qed

lemma ex_wellFormed: "wellFormed exM" "wellFormed exS" "wellFormed (newCluster seeds h)"
  by (simp_all add: wellFormed_def partitioned_def ex_fields exStore_simps srv_def newCluster_def)

text \<open>
  C5, where the code departs from the claim. The claim: when a handle of an address is
  in slaves, merging a master candidate for that address moves the handle into masters
  and out of slaves (and the same with the roles exchanged). A fresh cluster merges the
  slave handle 2 of address A and removes it, as a failed connection makes it do:
  removeServer takes it out of servers and, its first \<open>Remove\<close> having succeeded, leaves
  it in slaves. The next probe finds A to be a master and merges the master candidate 0
  of address A: mergeServer finds nothing under A in servers and adds the candidate as a
  new master; handle 2 is still in slaves and is not in masters.
\<close>

theorem mergeServer_stale_slave:
  "2 \<in> set (slaves (removeServer 2 (mergeServer 2 (newCluster [''A''] exStore)))) \<and>
   Addr (exStore 2) = Addr (exStore 0) \<and> Master (exStore 0) \<and>
   servers (mergeServer 0 (removeServer 2 (mergeServer 2 (newCluster [''A''] exStore)))) = [0] \<and>
   masters (mergeServer 0 (removeServer 2 (mergeServer 2 (newCluster [''A''] exStore)))) = [0] \<and>
   slaves (mergeServer 0 (removeServer 2 (mergeServer 2 (newCluster [''A''] exStore)))) = [2]"
  by (simp add: ex_steps ex_fields exStore_simps srv_def)

text \<open>mergeServer by itself does the move: where the address of the candidate is
  registered in servers and the role flag of the registered handle differs from the
  candidate's, the handle goes to the role set of the candidate and leaves the other.\<close>

lemma mergeServer_flip_registered:
  assumes s: "Search (heap c) (servers c) server = Some p"
  shows "\<not> Master (heap c p) \<Longrightarrow> Master (heap c server) \<Longrightarrow>
           p \<in> set (masters (mergeServer server c)) \<and> p \<notin> set (slaves (mergeServer server c))"
    and "Master (heap c p) \<Longrightarrow> \<not> Master (heap c server) \<Longrightarrow>
           p \<in> set (slaves (mergeServer server c)) \<and> p \<notin> set (masters (mergeServer server c))"
  by (simp_all add: mergeServer_present [OF s] sameAddr_def)

section \<open>Release\<close>

text \<open>
  C6: Release panics when the count is 0. Otherwise it lowers the count by one; when that
  takes the count from 1 to 0 it calls Close on the handles of servers, once for each
  entry, and a further Release panics; when the count was not 1 no handle is closed.
\<close>

theorem Release_refcount:
  "(references c = 0 \<longrightarrow> (\<exists>msg. Release c = Inl (Panic msg))) \<and>
   (references c \<noteq> 0 \<longrightarrow>
      (\<exists>c'. Release c = Inr c' \<and> references c' = references c - 1 \<and>
            servers c' = servers c \<and>
            (references c = 1 \<longrightarrow>
               (\<forall>r. closes (heap c' r) = closes (heap c r) + count_list (servers c) r) \<and>
               (\<exists>msg. Release c' = Inl (Panic msg))) \<and>
            (references c \<noteq> 1 \<longrightarrow> heap c' = heap c)))"
  by (simp add: Release_def Let_def Slice_def fold_Close_closes)

theorem Release_refcount_witness:
  "references (newCluster [''A''] exStore\<lparr>references := 0\<rparr>) = 0 \<and>
   Release (newCluster [''A''] exStore\<lparr>references := 0\<rparr>) =
     Inl (Panic ''cluster.Release() with references == 0'') \<and>
   references (mergeServer 0 (newCluster [''A''] exStore)) = 1 \<and>
   (\<exists>c'. Release (mergeServer 0 (newCluster [''A''] exStore)) = Inr c' \<and> references c' = 0 \<and>
      closes (heap c' 0) = 1 \<and> closes (heap c' 2) = 0 \<and> (\<exists>msg. Release c' = Inl (Panic msg))) \<and>
   references (Acquire (mergeServer 0 (newCluster [''A''] exStore))) = 2 \<and>
   (\<exists>c'. Release (Acquire (mergeServer 0 (newCluster [''A''] exStore))) = Inr c' \<and>
      references c' = 1 \<and> heap c' = exStore)"
  using Release_refcount [of "newCluster [''A''] exStore\<lparr>references := 0\<rparr>"]
    Release_refcount [of "mergeServer 0 (newCluster [''A''] exStore)"]
    Release_refcount [of "Acquire (mergeServer 0 (newCluster [''A''] exStore))"]
  by (auto simp add: ex_steps ex_fields Acquire_def Release_def exStore_simps srv_def)


section \<open>The end of a pass\<close>

lemma Release_dynaSeeds: "Release c = Inr c' \<Longrightarrow> dynaSeeds c' = dynaSeeds c"
  by (auto simp: Release_def Let_def split: if_splits)

lemma syncCompleted_seeds:
  "dynaSeeds (snd (syncCompleted c)) =
     (if Empty (servers c) then dynaSeeds c
      else map (\<lambda>server. Addr (heap c server)) (servers c))"
  by (simp add: syncCompleted_def Let_def emit_def Slice_def)

text \<open>
  C9: the critical section that ends a pass replaces the dynamic seeds by the addresses
  of the handles in servers, in their order, when servers is not empty, and leaves them
  as they were when servers is empty; the Release that follows does not touch them.
\<close>

theorem syncCompleted_dynaSeeds:
  "dynaSeeds (snd (syncCompleted c)) =
     (if Empty (servers c) then dynaSeeds c
      else map (\<lambda>server. Addr (heap c server)) (servers c)) \<and>
   (\<forall>again c'. syncEnd c = Inr (again, c') \<longrightarrow>
      dynaSeeds c' = dynaSeeds (snd (syncCompleted c)))"
proof (intro conjI allI impI)
  show "dynaSeeds (snd (syncCompleted c)) =
     (if Empty (servers c) then dynaSeeds c
      else map (\<lambda>server. Addr (heap c server)) (servers c))"
    by (rule syncCompleted_seeds)
next
  fix again c'
  assume "syncEnd c = Inr (again, c')"
  then obtain c1 where "syncCompleted c = (again, c1)" "Release c1 = Inr c'"
    by (auto simp: syncEnd_def split: prod.splits sum.splits)
  then show "dynaSeeds c' = dynaSeeds (snd (syncCompleted c))"
    by (simp add: Release_dynaSeeds)
qed

lemma newCluster_fields:
  "userSeeds (newCluster seeds h) = seeds" "dynaSeeds (newCluster seeds h) = []"
  "servers (newCluster seeds h) = []" "masters (newCluster seeds h) = []"
  "slaves (newCluster seeds h) = []" "heap (newCluster seeds h) = h"
  "references (newCluster seeds h) = 1"
  by (simp_all add: newCluster_def)

lemma ex_syncEnd:
  "syncEnd (exS\<lparr>dynaSeeds := [''X'']\<rparr>) =
     Inr (True, exS\<lparr>dynaSeeds := [''A''], references := 0,
        heap := exStore(2 := (srv ''A'' False)\<lparr>closes := 1\<rparr>),
        effects := effects exS @
          [Log [Str ''[sync] Synchronization completed: '', Num 0, Str '' master(s) and, '',
                Num 1, Str '' slave(s) alive.''],
           Log [Str ''[sync] No masters found. Synchronize again.''], Broadcast]\<rparr>)"
  by (simp add: syncEnd_def syncCompleted_def Release_def Close_def Let_def emit_def
      Len_def Empty_def Slice_def exS_def exStore_simps srv_def)

theorem syncCompleted_dynaSeeds_witness:
  "dynaSeeds (snd (syncCompleted (mergeServer 2 (newCluster [''A''] exStore)\<lparr>dynaSeeds := [''X'']\<rparr>)))
     = [''A''] \<and>
   dynaSeeds (snd (syncCompleted (newCluster [''A''] exStore\<lparr>dynaSeeds := [''X'']\<rparr>))) = [''X''] \<and>
   (\<exists>c'. syncEnd (mergeServer 2 (newCluster [''A''] exStore)\<lparr>dynaSeeds := [''X'']\<rparr>) = Inr (True, c') \<and>
      dynaSeeds c' = [''A''])"
  using syncCompleted_dynaSeeds [of "mergeServer 2 (newCluster [''A''] exStore)\<lparr>dynaSeeds := [''X'']\<rparr>"]
    syncCompleted_dynaSeeds [of "newCluster [''A''] exStore\<lparr>dynaSeeds := [''X'']\<rparr>"]
  by (simp add: ex_syncEnd ex_steps ex_fields newCluster_fields Empty_def exStore_simps srv_def)

section \<open>The fan-out of a pass\<close>

text \<open>
  C3, where the code departs from the claim. The claim: the signal that lets the
  coordinator go on is raised exactly when the finished branches are as many as the
  started ones and a branch was spawned, and never while a spawned branch, also one
  spawned later, is incomplete. With the known addresses A and B: the loop spawns the
  branch of A, that branch spawns a branch for a host C, both return, and started and
  finished are 2, the number of known addresses, so \<open>done\<close> is unlocked before the loop
  has spawned the branch of B. In the first run the loop then spawns B and the
  coordinator gets past line 301 while the branch of B is running. In the second run
  the branch of B returns before the coordinator has locked \<open>done\<close> again, and its
  \<open>done.Unlock()\<close> is a run-time error.
\<close>

theorem pass_signal_premature:
  "run [LoopSpawn, HostSpawn 0 ''C'', Return 1, Return 0, LoopSpawn, DoneLock]
       (startPass [''A'', ''B'']) =
     Some (Inr \<lparr>known = [''A'', ''B''], todo = [], started = 3, finished = 2, running = [''B''],
                doneLocked = True, signals = 1, resumed = True\<rparr>) \<and>
   run [LoopSpawn, HostSpawn 0 ''C'', Return 1, Return 0, LoopSpawn, Return 0]
       (startPass [''A'', ''B'']) =
     Some (Inl (Panic ''sync: unlock of unlocked mutex''))"
  by (simp add: startPass_def spawnSync_def deferred_def)

lemma step_empty: "step a (startPass []) = None"
  by (cases a) (simp_all add: startPass_def)

lemma run_empty: "run acts (startPass []) = Some r \<Longrightarrow> acts = [] \<and> r = Inr (startPass [])"
  by (cases acts) (simp_all add: step_empty)

lemma getKnownAddrs_empty:
  "userSeeds c = [] \<Longrightarrow> dynaSeeds c = [] \<Longrightarrow> servers c = [] \<Longrightarrow> getKnownAddrs c = []"
  by (simp add: getKnownAddrs_def Slice_def)

text \<open>
  C10: a cluster without user seeds, dynamic seeds and servers has no known address. A
  pass that starts from no known address can take no action: no branch is spawned, the
  signal is not raised, no run-time error ends it, the \<open>done\<close> mutex stays locked and the
  coordinator does not get past it. A pass in which the coordinator got past it had a
  known address.
\<close>

theorem empty_known_blocks:
  assumes "userSeeds c = []" "dynaSeeds c = []" "servers c = []"
  shows "getKnownAddrs c = [] \<and>
         (\<forall>a. step a (startPass (getKnownAddrs c)) = None) \<and>
         (\<forall>acts r. run acts (startPass (getKnownAddrs c)) = Some r \<longrightarrow>
            (\<exists>p. r = Inr p \<and> started p = 0 \<and> running p = [] \<and> signals p = 0 \<and>
                 doneLocked p \<and> \<not> resumed p)) \<and>
         (\<forall>ks acts p. run acts (startPass ks) = Some (Inr p) \<and> resumed p \<longrightarrow> ks \<noteq> [])"
proof -
  have k: "getKnownAddrs c = []" using assms by (rule getKnownAddrs_empty)
  have "run acts (startPass []) = Some r \<Longrightarrow>
          (\<exists>p. r = Inr p \<and> started p = 0 \<and> running p = [] \<and> signals p = 0 \<and>
               doneLocked p \<and> \<not> resumed p)" for acts r
    by (drule run_empty) (simp add: startPass_def)
  then show ?thesis by (auto simp: k step_empty)
qed

theorem empty_known_blocks_witness:
  "userSeeds (newCluster [] exStore) = [] \<and> dynaSeeds (newCluster [] exStore) = [] \<and>
   servers (newCluster [] exStore) = [] \<and> getKnownAddrs (newCluster [] exStore) = [] \<and>
   step LoopSpawn (startPass (getKnownAddrs (newCluster [] exStore))) = None \<and>
   step DoneLock (startPass (getKnownAddrs (newCluster [] exStore))) = None \<and>
   run [LoopSpawn, Return 0, DoneLock] (startPass [''A'']) =
     Some (Inr \<lparr>known = [''A''], todo = [], started = 1, finished = 1, running = [],
                doneLocked = True, signals = 1, resumed = True\<rparr>) \<and>
   [''A''] \<noteq> ([] :: string list)"
  using empty_known_blocks [of "newCluster [] exStore"]
  by (simp add: newCluster_def startPass_def spawnSync_def deferred_def)

section \<open>AcquireSocket\<close>

lemma eligible_select:
  "eligible wr c \<Longrightarrow> \<exists>server. selectServer wr c = Some server \<and>
     server \<in> set (if wr \<or> Empty (slaves c) then masters c else slaves c)"
  by (auto simp: eligible_def selectServer_def Get_def Empty_def)

lemma acquireLoop_failure:
  "acquireLoop wr T t0 es c = Some (Inl e, c') \<Longrightarrow>
     e = ErrorString ''no reachable servers'' \<and> 0 < T \<and> \<not> eligible wr c' \<and>
     (\<exists>now. Clock now \<in> set es \<and> T < now - t0)"
proof (induction wr T t0 es c rule: acquireLoop.induct)
  case (1 wr T t0 es c)
  show ?case
  proof (cases "eligible wr c")
    case True
    then obtain server where sel: "selectServer wr c = Some server"
      using eligible_select by blast
    from "1.prems" True sel obtain err f es' where es: "es = Open (Inl err) f # es'"
      and rec: "acquireLoop wr T t0 es' (emit GoSyncServers (removeServer server (f c))) = Some (Inl e, c')"
      by (subst (asm) acquireLoop.simps) (auto split: list.splits event.splits sum.splits)
    from "1.IH"(1) [OF True sel es refl refl rec] es show ?thesis by auto
  next
    case False
    show ?thesis
    proof (cases "0 < T")
      case T: True
      from "1.prems" False T obtain now es' where es: "es = Clock now # es'"
        by (subst (asm) acquireLoop.simps) (auto split: list.splits event.splits)
      show ?thesis
      proof (cases "now - t0 > T")
        case True
        with "1.prems" False T es show ?thesis
          by (subst (asm) acquireLoop.simps) auto
      next
        case late: False
        from "1.prems" False T es late obtain f es'' where es': "es' = Wake f # es''"
          and rec: "acquireLoop wr T t0 es'' (f (emit (Log [Str ''Waiting for masters to synchronize.'']) c)) = Some (Inl e, c')"
          by (subst (asm) acquireLoop.simps) (auto split: list.splits event.splits)
        from "1.IH"(2) [OF False T es refl late es' refl rec] es es' show ?thesis by auto
      qed
    next
      case T: False
      from "1.prems" False T obtain f es' where es: "es = Wake f # es'"
          and rec: "acquireLoop wr T t0 es' (f (emit (Log [Str ''Waiting for masters to synchronize.'']) c)) = Some (Inl e, c')"
        by (subst (asm) acquireLoop.simps) (auto split: list.splits event.splits)
      from "1.IH"(3) [OF False T es refl rec] es show ?thesis by auto
    qed
  qed
qed


lemma acquireLoop_open_failed:
  "selectServer wr c = Some server \<Longrightarrow> eligible wr c \<Longrightarrow>
   acquireLoop wr T t0 (Open (Inl err) f # es) c =
     acquireLoop wr T t0 es (emit GoSyncServers (removeServer server (f c)))"
  by (subst acquireLoop.simps) simp

lemma acquireLoop_open_ok:
  "selectServer wr c = Some server \<Longrightarrow> eligible wr c \<Longrightarrow>
   acquireLoop wr T t0 (Open (Inr n) f # es) c = Some (Inr (MongoSocket server n), f c)"
  by (subst acquireLoop.simps) simp

text \<open>What holds of the errors of AcquireSocket: an error it returns is "no reachable
  servers", the timeout is positive, the cluster it returns from has no eligible server,
  and a clock reading later than the first one by more than the timeout was made.\<close>

lemma AcquireSocket_error:
  assumes "AcquireSocket wr T es c = Some (Inl e, c')"
  shows "e = ErrorString ''no reachable servers'' \<and> 0 < T \<and> \<not> eligible wr c' \<and>
      (\<exists>t0 now rest. es = Clock t0 # rest \<and> Clock now \<in> set rest \<and> T < now - t0)"
proof -
  from assms obtain t0 rest where es: "es = Clock t0 # rest"
    and loop: "acquireLoop wr T t0 rest c = Some (Inl e, c')"
    by (auto simp: AcquireSocket_def split: list.splits event.splits)
  from acquireLoop_failure [OF loop] es show ?thesis by auto
qed

lemma ex_eligible:
  "eligible True exM" "eligible False exM" "eligible False exS" "\<not> eligible True exS"
  "\<not> eligible wr (newCluster seeds h)" "\<not> eligible wr (emit e (newCluster seeds h))"
  by (simp_all add: eligible_def Empty_def ex_fields newCluster_def emit_def)

lemma ex_select:
  "selectServer True exM = Some 0" "selectServer False exM = Some 0"
  "selectServer False exS = Some 2"
  by (simp_all add: selectServer_def Get_def Empty_def ex_fields)

text \<open>
  C7, where the code departs from the claim. The claim: a failure to open a connection
  on the selected server causes the removal of that server and a new pass, and the call
  tries again under the same deadline. The cluster holds the master handle 0 in servers
  and masters, and a write is asked for with a timeout of 5. The first
  \<open>server.AcquireSocket()\<close> fails: removeServer takes handle 0 out of servers and, its
  first \<open>Remove\<close> having succeeded, leaves it in masters, and a syncServers goroutine is
  started. The test of line 344 holds again at once, handle 0 is selected again, and the
  socket returned in the end is a connection of the server that was to be removed.
\<close>

theorem AcquireSocket_failed_server_kept:
  "AcquireSocket True 5
     [Clock 100, Open (Inl (ErrorString ''refused'')) id, Open (Inr 7) id]
     (mergeServer 0 (newCluster [''A''] exStore)) =
   Some (Inr (MongoSocket 0 7),
     \<lparr>userSeeds = [''A''], dynaSeeds = [], servers = [], masters = [0], slaves = [],
      syncing = False, references = 1, heap = exStore,
      effects = [GoSyncServers,
                 Log [Str ''[sync] Adding '', Str ''A'', Str '' to cluster as a master.''],
                 Broadcast,
                 Log [Str ''Removing server '', Str ''A'', Str '' from cluster.''],
                 GoSyncServers]\<rparr>)"
proof -
  have e2: "eligible True (emit GoSyncServers exMR)"
    and s2: "selectServer True (emit GoSyncServers exMR) = Some 0"
    by (simp_all add: eligible_def selectServer_def Get_def Empty_def emit_def ex_fields)
  have "acquireLoop True 5 100 [Open (Inl (ErrorString ''refused'')) id, Open (Inr 7) id] exM =
          acquireLoop True 5 100 [Open (Inr 7) id] (emit GoSyncServers exMR)"
    by (simp add: acquireLoop_open_failed [OF ex_select(1) ex_eligible(1)] ex_steps)
  also have "\<dots> = Some (Inr (MongoSocket 0 7), emit GoSyncServers exMR)"
    by (simp add: acquireLoop_open_ok [OF s2 e2])
  finally show ?thesis
    by (simp add: AcquireSocket_def ex_steps emit_def exMR_def exM_def)
qed

text \<open>
  C8: when the test that ends the wait holds, a server is selected: one of masters for a
  write; for a read one of slaves when slaves is not empty, and one of masters when it
  is; and the socket AcquireSocket returns is a connection of that server.
\<close>

theorem AcquireSocket_selection:
  assumes el: "eligible wr c"
  shows "\<exists>server. selectServer wr c = Some server \<and>
           (wr \<longrightarrow> server \<in> set (masters c)) \<and>
           (\<not> wr \<and> \<not> Empty (slaves c) \<longrightarrow> server \<in> set (slaves c)) \<and>
           (\<not> wr \<and> Empty (slaves c) \<longrightarrow> server \<in> set (masters c)) \<and>
           acquireLoop wr T t0 (Open (Inr n) f # es) c = Some (Inr (MongoSocket server n), f c)"
proof -
  from eligible_select [OF el] obtain server where sel: "selectServer wr c = Some server"
    and mem: "server \<in> set (if wr \<or> Empty (slaves c) then masters c else slaves c)"
    by blast
  from mem have "(wr \<longrightarrow> server \<in> set (masters c)) \<and>
           (\<not> wr \<and> \<not> Empty (slaves c) \<longrightarrow> server \<in> set (slaves c)) \<and>
           (\<not> wr \<and> Empty (slaves c) \<longrightarrow> server \<in> set (masters c))"
    by (auto split: if_splits)
  with sel acquireLoop_open_ok [OF sel el] show ?thesis by blast
qed

theorem AcquireSocket_selection_witness:
  "eligible True (mergeServer 0 (newCluster [''A''] exStore)) \<and>
   selectServer True (mergeServer 0 (newCluster [''A''] exStore)) = Some 0 \<and>
   0 \<in> set (masters (mergeServer 0 (newCluster [''A''] exStore))) \<and>
   eligible False (mergeServer 2 (newCluster [''A''] exStore)) \<and>
   selectServer False (mergeServer 2 (newCluster [''A''] exStore)) = Some 2 \<and>
   2 \<in> set (slaves (mergeServer 2 (newCluster [''A''] exStore))) \<and>
   eligible False (mergeServer 0 (newCluster [''A''] exStore)) \<and>
   Empty (slaves (mergeServer 0 (newCluster [''A''] exStore))) \<and>
   selectServer False (mergeServer 0 (newCluster [''A''] exStore)) = Some 0 \<and>
   AcquireSocket False 0 [Clock 100, Open (Inr 7) id] (mergeServer 2 (newCluster [''A''] exStore)) =
     Some (Inr (MongoSocket 2 7), mergeServer 2 (newCluster [''A''] exStore))"
  using AcquireSocket_selection [of True "mergeServer 0 (newCluster [''A''] exStore)"]
    AcquireSocket_selection [of False "mergeServer 2 (newCluster [''A''] exStore)" 0 100 7 id "[]"]
    AcquireSocket_selection [of False "mergeServer 0 (newCluster [''A''] exStore)"]
  by (simp add: ex_steps ex_eligible ex_select ex_fields Empty_def AcquireSocket_def)

end
